theory Spec2Isabelle
  imports Complex_Main
begin

chapter \<open>Steering odometry and speed limiter\<close>

text \<open>
  A shallow embedding of \<^verbatim>\<open>steering_controllers_library/src/steering_odometry.cpp\<close>
  and \<^verbatim>\<open>four_steering_controller/src/speed_limiter.cpp\<close>.

  Numbers. The odometry code computes with C++ \<^verbatim>\<open>double\<close> and never tests a value
  for being finite; it is embedded over \<^typ>\<open>real\<close>: every operation is exact, and
  rounding, overflow, signed zeros, infinities and NaN are outside this part of the model.
  The speed limiter does test for NaN (its constructor), so it is embedded over a
  type \<open>double\<close> of its own, with the special values and their IEEE 754 rules; a
  finite result that is too large overflows to an infinity, and a finite result in
  range is kept exact.

  Names. A C++ member \<^verbatim>\<open>name_\<close> is the record field \<open>name_m\<close> (an identifier
  cannot end with an underscore here). A method that mutates the object takes the
  object last and returns the new object, paired with the return value when there
  is one.
\<close>

section \<open>Odometry: data\<close>

text \<open>
  Modelled from the spec: \<^verbatim>\<open>rcppmath::RollingMeanAccumulator\<close> is used by the
  odometry but is not part of the sources. The specification describes it as a
  fixed-capacity window that yields the arithmetic mean of the last N accumulated
  samples. The newest sample is the head of \<open>samples\<close>.
\<close>

record RollingMeanAccumulator =
  window :: nat
  samples :: "real list"

definition new_accumulator :: "nat \<Rightarrow> RollingMeanAccumulator" where
  "new_accumulator n = \<lparr>window = n, samples = []\<rparr>"

definition accumulate :: "real \<Rightarrow> RollingMeanAccumulator \<Rightarrow> RollingMeanAccumulator" where
  "accumulate v a = a\<lparr>samples := take (window a) (v # samples a)\<rparr>"

definition getRollingMean :: "RollingMeanAccumulator \<Rightarrow> real" where
  "getRollingMean a = sum_list (samples a) / real (length (samples a))"

text \<open>
  Modelled from the spec: the constants \<^verbatim>\<open>BICYCLE_CONFIG\<close>, \<^verbatim>\<open>TRICYCLE_CONFIG\<close>,
  \<^verbatim>\<open>ACKERMANN_CONFIG\<close> and \<^verbatim>\<open>FOUR_STEERING_CONFIG\<close> are declared in
  \<^verbatim>\<open>steering_odometry.hpp\<close>, which is not part of the sources. The specification
  gives the configuration as an enumeration of these four variants; the code stores
  an \<^verbatim>\<open>unsigned int\<close> and compares it with the four constants, so every other
  stored value is \<open>OTHER_CONFIG\<close>.
\<close>

datatype config_type =
  BICYCLE_CONFIG | TRICYCLE_CONFIG | ACKERMANN_CONFIG | FOUR_STEERING_CONFIG
  | OTHER_CONFIG nat

record SteeringOdometry =
  timestamp_m :: real
  x_m :: real
  y_m :: real
  heading_m :: real
  linear_m :: real
  angular_m :: real
  wheel_track_m :: real
  wheelbase_m :: real
  wheel_radius_m :: real
  y_steering_offset_m :: real
  steer_pos_m :: real
  traction_wheel_old_pos_m :: real
  traction_right_wheel_old_pos_m :: real
  traction_left_wheel_old_pos_m :: real
  velocity_rolling_window_size_m :: nat
  linear_acc_m :: RollingMeanAccumulator
  angular_acc_m :: RollingMeanAccumulator
  config_type_m :: config_type

text \<open>Both files throw \<^verbatim>\<open>std::runtime_error\<close> with a message.\<close>

datatype error = runtime_error string

section \<open>Odometry: operations\<close>

text \<open>
  The constructor initialises the members of its initialiser list. The members it
  leaves out (\<^verbatim>\<open>y_steering_offset_\<close>, \<^verbatim>\<open>steer_pos_\<close>, the left and right old
  positions, \<^verbatim>\<open>config_type_\<close>) get their value from the class declaration, which is
  not part of the sources; they are parameters here.
\<close>

definition new_SteeringOdometry ::
  "real \<Rightarrow> real \<Rightarrow> real \<Rightarrow> real \<Rightarrow> config_type \<Rightarrow> nat \<Rightarrow> SteeringOdometry" where
  "new_SteeringOdometry offset0 steer0 right0 left0 config0 velocity_rolling_window_size =
     \<lparr>timestamp_m = 0, x_m = 0, y_m = 0, heading_m = 0, linear_m = 0, angular_m = 0,
      wheel_track_m = 0, wheelbase_m = 0, wheel_radius_m = 0,
      y_steering_offset_m = offset0, steer_pos_m = steer0,
      traction_wheel_old_pos_m = 0,
      traction_right_wheel_old_pos_m = right0, traction_left_wheel_old_pos_m = left0,
      velocity_rolling_window_size_m = velocity_rolling_window_size,
      linear_acc_m = new_accumulator velocity_rolling_window_size,
      angular_acc_m = new_accumulator velocity_rolling_window_size,
      config_type_m = config0\<rparr>"

definition reset_accumulators :: "SteeringOdometry \<Rightarrow> SteeringOdometry" where
  "reset_accumulators s =
     s\<lparr>linear_acc_m := new_accumulator (velocity_rolling_window_size_m s),
       angular_acc_m := new_accumulator (velocity_rolling_window_size_m s)\<rparr>"

definition init :: "real \<Rightarrow> SteeringOdometry \<Rightarrow> SteeringOdometry" where
  "init time s = (reset_accumulators s)\<lparr>timestamp_m := time\<rparr>"

definition integrate_runge_kutta_2 :: "real \<Rightarrow> real \<Rightarrow> SteeringOdometry \<Rightarrow> SteeringOdometry" where
  "integrate_runge_kutta_2 lin ang s =
     (let direction = heading_m s + ang * 0.5
      in s\<lparr>x_m := x_m s + lin * cos direction,
           y_m := y_m s + lin * sin direction,
           heading_m := heading_m s + ang\<rparr>)"

definition integrate_exact :: "real \<Rightarrow> real \<Rightarrow> SteeringOdometry \<Rightarrow> SteeringOdometry" where
  "integrate_exact lin ang s =
     (if \<bar>ang\<bar> < 0.000001 then integrate_runge_kutta_2 lin ang s
      else
        (let heading_old = heading_m s;
             r = lin / ang;
             s1 = s\<lparr>heading_m := heading_m s + ang\<rparr>;
             s2 = s1\<lparr>x_m := x_m s1 + r * (sin (heading_m s1) - sin heading_old)\<rparr>
         in s2\<lparr>y_m := y_m s2 + - r * (cos (heading_m s2) - cos heading_old)\<rparr>))"

definition update_odometry ::
  "real \<Rightarrow> real \<Rightarrow> real \<Rightarrow> SteeringOdometry \<Rightarrow> bool \<times> SteeringOdometry" where
  "update_odometry linear_velocity ang dt s =
     (let s1 = integrate_exact (linear_velocity * dt) ang s
      in if dt < 0.0001 then (False, s1)
         else
           (let s2 = s1\<lparr>linear_acc_m := accumulate linear_velocity (linear_acc_m s1)\<rparr>;
                s3 = s2\<lparr>angular_acc_m := accumulate (ang / dt) (angular_acc_m s2)\<rparr>;
                s4 = s3\<lparr>linear_m := getRollingMean (linear_acc_m s3)\<rparr>;
                s5 = s4\<lparr>angular_m := getRollingMean (angular_acc_m s4)\<rparr>
            in (True, s5)))"

text \<open>\<^verbatim>\<open>update_from_position\<close>, one traction wheel and one steering axis.\<close>

definition update_from_position_1 ::
  "real \<Rightarrow> real \<Rightarrow> real \<Rightarrow> SteeringOdometry \<Rightarrow> bool \<times> SteeringOdometry" where
  "update_from_position_1 traction_wheel_pos steer_pos dt s =
     (let traction_wheel_cur_pos = traction_wheel_pos * wheel_radius_m s;
          traction_wheel_est_pos_diff = traction_wheel_cur_pos - traction_wheel_old_pos_m s;
          s1 = s\<lparr>traction_wheel_old_pos_m := traction_wheel_cur_pos\<rparr>;
          linear_velocity = traction_wheel_est_pos_diff / dt;
          s2 = s1\<lparr>steer_pos_m := steer_pos\<rparr>;
          ang = tan steer_pos * linear_velocity / wheelbase_m s2
      in update_odometry linear_velocity ang dt s2)"

text \<open>\<^verbatim>\<open>update_from_position\<close>, two traction wheels and one steering axis.\<close>

definition update_from_position_2 ::
  "real \<Rightarrow> real \<Rightarrow> real \<Rightarrow> real \<Rightarrow> SteeringOdometry \<Rightarrow> bool \<times> SteeringOdometry" where
  "update_from_position_2 traction_right_wheel_pos traction_left_wheel_pos steer_pos dt s =
     (let traction_right_wheel_cur_pos = traction_right_wheel_pos * wheel_radius_m s;
          traction_left_wheel_cur_pos = traction_left_wheel_pos * wheel_radius_m s;
          traction_right_wheel_est_pos_diff =
            traction_right_wheel_cur_pos - traction_right_wheel_old_pos_m s;
          traction_left_wheel_est_pos_diff =
            traction_left_wheel_cur_pos - traction_left_wheel_old_pos_m s;
          s1 = s\<lparr>traction_right_wheel_old_pos_m := traction_right_wheel_cur_pos,
                 traction_left_wheel_old_pos_m := traction_left_wheel_cur_pos\<rparr>;
          linear_velocity =
            (traction_right_wheel_est_pos_diff + traction_left_wheel_est_pos_diff) * 0.5 / dt;
          s2 = s1\<lparr>steer_pos_m := steer_pos\<rparr>;
          ang = tan (steer_pos_m s2) * linear_velocity / wheelbase_m s2
      in update_odometry linear_velocity ang dt s2)"

text \<open>\<^verbatim>\<open>update_from_position\<close>, two traction wheels and two steering axes.\<close>

definition update_from_position_3 ::
  "real \<Rightarrow> real \<Rightarrow> real \<Rightarrow> real \<Rightarrow> real \<Rightarrow> SteeringOdometry \<Rightarrow> bool \<times> SteeringOdometry" where
  "update_from_position_3 traction_right_wheel_pos traction_left_wheel_pos
       right_steer_pos left_steer_pos dt s =
     (let traction_right_wheel_cur_pos = traction_right_wheel_pos * wheel_radius_m s;
          traction_left_wheel_cur_pos = traction_left_wheel_pos * wheel_radius_m s;
          traction_right_wheel_est_pos_diff =
            traction_right_wheel_cur_pos - traction_right_wheel_old_pos_m s;
          traction_left_wheel_est_pos_diff =
            traction_left_wheel_cur_pos - traction_left_wheel_old_pos_m s;
          s1 = s\<lparr>traction_right_wheel_old_pos_m := traction_right_wheel_cur_pos,
                 traction_left_wheel_old_pos_m := traction_left_wheel_cur_pos\<rparr>;
          linear_velocity =
            (traction_right_wheel_est_pos_diff + traction_left_wheel_est_pos_diff) * 0.5 / dt;
          s2 = s1\<lparr>steer_pos_m := (right_steer_pos + left_steer_pos) * 0.5\<rparr>;
          ang = tan (steer_pos_m s2) * linear_velocity / wheelbase_m s2
      in update_odometry linear_velocity ang dt s2)"

text \<open>
  The functions of \<^verbatim>\<open><cmath>\<close> that the code calls, on reals: \<^verbatim>\<open>copysign\<close> and
  \<^verbatim>\<open>hypot\<close>. \<^verbatim>\<open>fabs\<close> and \<^verbatim>\<open>abs\<close> are \<open>\<bar>x\<bar>\<close>, \<^verbatim>\<open>pow(x, 2)\<close> is \<open>x\<^sup>2\<close>,
  \<^verbatim>\<open>atan\<close> is \<open>arctan\<close>, \<^verbatim>\<open>M_PI_2\<close> is \<open>pi / 2\<close>, and \<^verbatim>\<open>atan2\<close> is \<open>atan2\<close> below.
\<close>

definition copysign :: "real \<Rightarrow> real \<Rightarrow> real" where
  "copysign m x = (if x < 0 then - \<bar>m\<bar> else \<bar>m\<bar>)"

definition hypot :: "real \<Rightarrow> real \<Rightarrow> real" where
  "hypot a b = sqrt (a\<^sup>2 + b\<^sup>2)"

definition atan2 :: "real \<Rightarrow> real \<Rightarrow> real" where
  "atan2 b a =
     (if 0 < a then arctan (b / a)
      else if a < 0 then (if 0 \<le> b then arctan (b / a) + pi else arctan (b / a) - pi)
      else if 0 < b then pi / 2
      else if b < 0 then - (pi / 2)
      else 0)"

text \<open>
  \<^verbatim>\<open>update_four_steering\<close> assigns to the member \<^verbatim>\<open>angular_\<close> (state \<open>s1\<close>) before
  it calls \<^verbatim>\<open>update_odometry\<close>, and reads the member back for \<^verbatim>\<open>linear_y_\<close> and
  for the call.
\<close>

definition update_four_steering ::
  "real \<Rightarrow> real \<Rightarrow> real \<Rightarrow> real \<Rightarrow> real \<Rightarrow> real \<Rightarrow> real \<Rightarrow> SteeringOdometry
     \<Rightarrow> bool \<times> SteeringOdometry" where
  "update_four_steering fr_speed fl_speed rr_speed rl_speed front_steering rear_steering dt s =
     (let front_tmp =
            cos front_steering * (tan front_steering - tan rear_steering) / wheelbase_m s;
          front_left_tmp =
            front_tmp / sqrt (1 - wheel_track_m s * front_tmp * cos front_steering
                                + (wheel_track_m s * front_tmp / 2)\<^sup>2);
          front_right_tmp =
            front_tmp / sqrt (1 + wheel_track_m s * front_tmp * cos front_steering
                                + (wheel_track_m s * front_tmp / 2)\<^sup>2);
          fl_speed_tmp = fl_speed * (1 / (1 - y_steering_offset_m s * front_left_tmp));
          fr_speed_tmp = fr_speed * (1 / (1 - y_steering_offset_m s * front_right_tmp));
          front_linear_speed =
            wheel_radius_m s * copysign 1.0 (fl_speed_tmp + fr_speed_tmp) *
            sqrt ((fl_speed\<^sup>2 + fr_speed\<^sup>2) / (2 + (wheel_track_m s * front_tmp)\<^sup>2 / 2.0));
          rear_tmp =
            cos rear_steering * (tan front_steering - tan rear_steering) / wheelbase_m s;
          rear_left_tmp =
            rear_tmp / sqrt (1 - wheel_track_m s * rear_tmp * cos rear_steering
                               + (wheel_track_m s * rear_tmp / 2)\<^sup>2);
          rear_right_tmp =
            rear_tmp / sqrt (1 + wheel_track_m s * rear_tmp * cos rear_steering
                               + (wheel_track_m s * rear_tmp / 2)\<^sup>2);
          rl_speed_tmp = rl_speed * (1 / (1 - y_steering_offset_m s * rear_left_tmp));
          rr_speed_tmp = rr_speed * (1 / (1 - y_steering_offset_m s * rear_right_tmp));
          rear_linear_speed =
            wheel_radius_m s * copysign 1.0 (rl_speed_tmp + rr_speed_tmp) *
            sqrt ((rl_speed_tmp\<^sup>2 + rr_speed_tmp\<^sup>2) / (2 + (wheel_track_m s * rear_tmp)\<^sup>2 / 2.0));
          s1 = s\<lparr>angular_m := (front_linear_speed * front_tmp + rear_linear_speed * rear_tmp) / 2.0\<rparr>;
          linear_x = (front_linear_speed * cos front_steering
                      + rear_linear_speed * cos rear_steering) / 2.0;
          linear_y = (front_linear_speed * sin front_steering - wheelbase_m s1 * angular_m s1 / 2.0
                      + rear_linear_speed * sin rear_steering + wheelbase_m s1 * angular_m s1 / 2.0) / 2.0;
          linear_velocity = copysign 1.0 rear_linear_speed * sqrt (linear_x\<^sup>2 + linear_y\<^sup>2)
      in update_odometry linear_velocity (angular_m s1) dt s1)"

text \<open>\<^verbatim>\<open>update_from_velocity\<close>, one traction wheel and one steering axis.\<close>

definition update_from_velocity_1 ::
  "real \<Rightarrow> real \<Rightarrow> real \<Rightarrow> SteeringOdometry \<Rightarrow> bool \<times> SteeringOdometry" where
  "update_from_velocity_1 traction_wheel_vel steer_pos dt s =
     (let s1 = s\<lparr>steer_pos_m := steer_pos\<rparr>;
          linear_velocity = traction_wheel_vel * wheel_radius_m s1;
          ang = tan steer_pos * linear_velocity / wheelbase_m s1
      in update_odometry linear_velocity ang dt s1)"

text \<open>\<^verbatim>\<open>update_from_velocity\<close>, two traction wheels and one steering axis.\<close>

definition update_from_velocity_2 ::
  "real \<Rightarrow> real \<Rightarrow> real \<Rightarrow> real \<Rightarrow> SteeringOdometry \<Rightarrow> bool \<times> SteeringOdometry" where
  "update_from_velocity_2 right_traction_wheel_vel left_traction_wheel_vel steer_pos dt s =
     (let linear_velocity =
            (right_traction_wheel_vel + left_traction_wheel_vel) * wheel_radius_m s * 0.5;
          s1 = s\<lparr>steer_pos_m := steer_pos\<rparr>;
          ang = tan (steer_pos_m s1) * linear_velocity / wheelbase_m s1
      in update_odometry linear_velocity ang dt s1)"

text \<open>\<^verbatim>\<open>update_from_velocity\<close>, two traction wheels and two steering axes.\<close>

definition update_from_velocity_3 ::
  "real \<Rightarrow> real \<Rightarrow> real \<Rightarrow> real \<Rightarrow> real \<Rightarrow> SteeringOdometry \<Rightarrow> bool \<times> SteeringOdometry" where
  "update_from_velocity_3 right_traction_wheel_vel left_traction_wheel_vel
       right_steer_pos left_steer_pos dt s =
     (let s1 = s\<lparr>steer_pos_m := (right_steer_pos + left_steer_pos) * 0.5\<rparr>;
          linear_velocity =
            (right_traction_wheel_vel + left_traction_wheel_vel) * wheel_radius_m s1 * 0.5;
          ang = steer_pos_m s1 * linear_velocity / wheelbase_m s1
      in update_odometry linear_velocity ang dt s1)"

definition update_open_loop :: "real \<Rightarrow> real \<Rightarrow> real \<Rightarrow> SteeringOdometry \<Rightarrow> SteeringOdometry" where
  "update_open_loop lin ang dt s =
     (let s1 = s\<lparr>linear_m := lin\<rparr>;
          s2 = s1\<lparr>angular_m := ang\<rparr>
      in integrate_exact (lin * dt) (ang * dt) s2)"

text \<open>\<^verbatim>\<open>set_wheel_params\<close> with three and with four arguments.\<close>

definition set_wheel_params_3 :: "real \<Rightarrow> real \<Rightarrow> real \<Rightarrow> SteeringOdometry \<Rightarrow> SteeringOdometry" where
  "set_wheel_params_3 wheel_radius wheelbase wheel_track s =
     s\<lparr>wheel_radius_m := wheel_radius, wheelbase_m := wheelbase, wheel_track_m := wheel_track\<rparr>"

definition set_wheel_params_4 ::
  "real \<Rightarrow> real \<Rightarrow> real \<Rightarrow> real \<Rightarrow> SteeringOdometry \<Rightarrow> SteeringOdometry" where
  "set_wheel_params_4 wheel_radius wheelbase wheel_track y_steering_offset s =
     s\<lparr>wheel_radius_m := wheel_radius, wheelbase_m := wheelbase, wheel_track_m := wheel_track,
       y_steering_offset_m := y_steering_offset\<rparr>"

definition set_velocity_rolling_window_size :: "nat \<Rightarrow> SteeringOdometry \<Rightarrow> SteeringOdometry" where
  "set_velocity_rolling_window_size velocity_rolling_window_size s =
     reset_accumulators (s\<lparr>velocity_rolling_window_size_m := velocity_rolling_window_size\<rparr>)"

definition set_odometry_type :: "config_type \<Rightarrow> SteeringOdometry \<Rightarrow> SteeringOdometry" where
  "set_odometry_type type s = s\<lparr>config_type_m := type\<rparr>"

definition reset_odometry :: "SteeringOdometry \<Rightarrow> SteeringOdometry" where
  "reset_odometry s = reset_accumulators (s\<lparr>x_m := 0, y_m := 0, heading_m := 0\<rparr>)"

definition convert_trans_rot_vel_to_steering_angle ::
  "real \<Rightarrow> real \<Rightarrow> SteeringOdometry \<Rightarrow> real" where
  "convert_trans_rot_vel_to_steering_angle Vx theta_dot s =
     (if theta_dot = 0 \<or> Vx = 0 then 0 else arctan (theta_dot * wheelbase_m s / Vx))"

text \<open>
  \<^verbatim>\<open>get_commands\<close> declares \<^verbatim>\<open>double Ws, alpha;\<close> without initialising them. The
  branch for \<^verbatim>\<open>from_twist == false\<close> assigns \<^verbatim>\<open>alpha\<close> only, so \<^verbatim>\<open>Ws\<close> keeps
  whatever the uninitialised local holds: that indeterminate value is the parameter
  \<open>Ws0\<close>. \<open>desired_Ws_alpha\<close> is the first block of the function (the two
  intermediates), \<open>get_commands\<close> the whole function. \<^verbatim>\<open>abs(angular)\<close> is taken on
  the \<^verbatim>\<open>double\<close>.
\<close>

definition desired_Ws_alpha ::
  "real \<Rightarrow> real \<Rightarrow> real \<Rightarrow> bool \<Rightarrow> SteeringOdometry \<Rightarrow> real \<times> real" where
  "desired_Ws_alpha Ws0 Vx ang from_twist s =
     (if from_twist then
        (if Vx = 0 \<and> ang \<noteq> 0 then
           (\<bar>ang\<bar> * wheelbase_m s / wheel_radius_m s, if ang > 0 then pi / 2 else - (pi / 2))
         else
           (Vx / (wheel_radius_m s * cos (steer_pos_m s)),
            convert_trans_rot_vel_to_steering_angle Vx ang s))
      else (Ws0, ang))"

definition get_commands ::
  "real \<Rightarrow> real \<Rightarrow> real \<Rightarrow> bool \<Rightarrow> SteeringOdometry \<Rightarrow> error + (real list \<times> real list)" where
  "get_commands Ws0 Vx ang from_twist s =
     (let (Ws, alpha) = desired_Ws_alpha Ws0 Vx ang from_twist s in
      case config_type_m s of
        BICYCLE_CONFIG \<Rightarrow> Inr ([Ws], [alpha])
      | TRICYCLE_CONFIG \<Rightarrow>
          (if \<bar>steer_pos_m s\<bar> < 0.000001 then Inr ([Ws, Ws], [alpha])
           else
             (let turning_radius = wheelbase_m s / tan (steer_pos_m s);
                  Wr = Ws * (turning_radius + wheel_track_m s * 0.5) / turning_radius;
                  Wl = Ws * (turning_radius - wheel_track_m s * 0.5) / turning_radius
              in Inr ([Wr, Wl], [alpha])))
      | ACKERMANN_CONFIG \<Rightarrow>
          (if \<bar>steer_pos_m s\<bar> < 0.000001 then Inr ([Ws, Ws], [alpha, alpha])
           else
             (let turning_radius = wheelbase_m s / tan (steer_pos_m s);
                  Wr = Ws * (turning_radius + wheel_track_m s * 0.5) / turning_radius;
                  Wl = Ws * (turning_radius - wheel_track_m s * 0.5) / turning_radius;
                  numerator = 2 * wheelbase_m s * sin alpha;
                  denominator_first_member = 2 * wheelbase_m s * cos alpha;
                  denominator_second_member = wheel_track_m s * sin alpha;
                  alpha_r = atan2 numerator (denominator_first_member - denominator_second_member);
                  alpha_l = atan2 numerator (denominator_first_member + denominator_second_member)
              in Inr ([Wr, Wl], [alpha_r, alpha_l])))
      | FOUR_STEERING_CONFIG \<Rightarrow>
          (let steering_track = wheel_track_m s - 2 * y_steering_offset_m s;
               vel_steering_offset = (alpha * y_steering_offset_m s) / wheel_radius_m s;
               sign = copysign 1.0 Ws;
               vel_left_front =
                 sign * hypot (Ws - alpha * steering_track / 2) (wheelbase_m s * alpha / 2.0)
                   / wheel_radius_m s - vel_steering_offset;
               vel_right_front =
                 sign * hypot (Ws + alpha * steering_track / 2) (wheelbase_m s * alpha / 2.0)
                   / wheel_radius_m s + vel_steering_offset;
               vel_left_rear =
                 sign * hypot (Ws - alpha * steering_track / 2) (wheelbase_m s * alpha / 2.0)
                   / wheel_radius_m s - vel_steering_offset;
               vel_right_rear =
                 sign * hypot (Ws + alpha * steering_track / 2) (wheelbase_m s * alpha / 2.0)
                   / wheel_radius_m s + vel_steering_offset;
               (front_left_steering, front_right_steering) =
                 (if \<bar>2.0 * Ws\<bar> > \<bar>alpha * steering_track\<bar> then
                    (arctan (alpha * wheelbase_m s / (2.0 * Ws - alpha * steering_track)),
                     arctan (alpha * wheelbase_m s / (2.0 * Ws + alpha * steering_track)))
                  else if \<bar>Ws\<bar> > 0.001 then
                    (copysign (pi / 2) alpha, copysign (pi / 2) alpha)
                  else (0.0, 0.0));
               rear_left_steering = - front_left_steering;
               rear_right_steering = - front_right_steering
           in Inr ([vel_left_front, vel_right_front, vel_left_rear, vel_right_rear],
                   [front_left_steering, front_right_steering,
                    rear_left_steering, rear_right_steering]))
      | OTHER_CONFIG n \<Rightarrow> Inl (runtime_error ''Config not implemented''))"

section \<open>Speed limiter: numbers\<close>

text \<open>
  A \<^verbatim>\<open>double\<close> of the speed limiter: a finite value, an infinity or NaN. The
  operations follow IEEE 754 on the special values. A finite result overflows as
  round-to-nearest does in binary64: when its magnitude reaches
  \<open>2\<^sup>1\<^sup>0\<^sup>2\<^sup>4 - 2\<^sup>9\<^sup>7\<^sup>0\<close> (the largest double plus half a unit in its last
  place) it becomes the infinity of its sign. Below that the result is kept exact:
  the rounding of a result in range to the nearest double is not modelled, and there
  is one zero. \<open>x < y\<close> and \<open>x \<le> y\<close> are false when an operand is NaN, as in C++.
\<close>

datatype double = Num real | PInf | NInf | NaN

definition overflow_threshold :: real where
  "overflow_threshold = 2 ^ 1024 - 2 ^ 970"

definition finite_result :: "real \<Rightarrow> double" where
  "finite_result x =
     (if overflow_threshold \<le> x then PInf
      else if x \<le> - overflow_threshold then NInf
      else Num x)"

fun isnan :: "double \<Rightarrow> bool" where
  "isnan NaN = True"
| "isnan x = False"


instantiation double :: "{plus, minus, uminus, times, inverse, ord}"
begin

fun uminus_double :: "double \<Rightarrow> double" where
  "uminus_double (Num a) = Num (- a)"
| "uminus_double PInf = NInf"
| "uminus_double NInf = PInf"
| "uminus_double NaN = NaN"

fun plus_double :: "double \<Rightarrow> double \<Rightarrow> double" where
  "plus_double NaN y = NaN"
| "plus_double x NaN = NaN"
| "plus_double (Num a) (Num b) = finite_result (a + b)"
| "plus_double PInf NInf = NaN"
| "plus_double NInf PInf = NaN"
| "plus_double PInf y = PInf"
| "plus_double x PInf = PInf"
| "plus_double NInf y = NInf"
| "plus_double x NInf = NInf"

definition minus_double :: "double \<Rightarrow> double \<Rightarrow> double" where
  "minus_double x y = x + (- y)"

fun times_double :: "double \<Rightarrow> double \<Rightarrow> double" where
  "times_double NaN y = NaN"
| "times_double x NaN = NaN"
| "times_double (Num a) (Num b) = finite_result (a * b)"
| "times_double (Num a) PInf = (if a = 0 then NaN else if 0 < a then PInf else NInf)"
| "times_double (Num a) NInf = (if a = 0 then NaN else if 0 < a then NInf else PInf)"
| "times_double PInf (Num b) = (if b = 0 then NaN else if 0 < b then PInf else NInf)"
| "times_double NInf (Num b) = (if b = 0 then NaN else if 0 < b then NInf else PInf)"
| "times_double PInf PInf = PInf"
| "times_double PInf NInf = NInf"
| "times_double NInf PInf = NInf"
| "times_double NInf NInf = PInf"

fun divide_double :: "double \<Rightarrow> double \<Rightarrow> double" where
  "divide_double NaN y = NaN"
| "divide_double x NaN = NaN"
| "divide_double (Num a) (Num b) =
     (if b = 0 then (if a = 0 then NaN else if 0 < a then PInf else NInf)
      else finite_result (a / b))"
| "divide_double (Num a) PInf = Num 0"
| "divide_double (Num a) NInf = Num 0"
| "divide_double PInf (Num b) = (if 0 \<le> b then PInf else NInf)"
| "divide_double NInf (Num b) = (if 0 \<le> b then NInf else PInf)"
| "divide_double PInf PInf = NaN"
| "divide_double PInf NInf = NaN"
| "divide_double NInf PInf = NaN"
| "divide_double NInf NInf = NaN"

fun inverse_double :: "double \<Rightarrow> double" where
  "inverse_double NaN = NaN"
| "inverse_double (Num b) = (if b = 0 then PInf else finite_result (1 / b))"
| "inverse_double PInf = Num 0"
| "inverse_double NInf = Num 0"

fun less_double :: "double \<Rightarrow> double \<Rightarrow> bool" where
  "less_double (Num a) (Num b) = (a < b)"
| "less_double (Num a) PInf = True"
| "less_double NInf (Num b) = True"
| "less_double NInf PInf = True"
| "less_double x y = False"

fun less_eq_double :: "double \<Rightarrow> double \<Rightarrow> bool" where
  "less_eq_double (Num a) (Num b) = (a \<le> b)"
| "less_eq_double (Num a) PInf = True"
| "less_eq_double NInf (Num b) = True"
| "less_eq_double NInf PInf = True"
| "less_eq_double PInf PInf = True"
| "less_eq_double NInf NInf = True"
| "less_eq_double x y = False"

instance ..

end

text \<open>The C++ comparison \<^verbatim>\<open>x != y\<close>: true when an operand is NaN.\<close>

definition dneq :: "double \<Rightarrow> double \<Rightarrow> bool" where
  "dneq x y = (isnan x \<or> isnan y \<or> x \<noteq> y)"

text \<open>
  Modelled from the spec: \<^verbatim>\<open>rcppmath::clamp\<close> is called by the limiter but is not
  part of the sources. The specification says it bounds (clamps) a value to an
  interval; as \<^verbatim>\<open>std::clamp\<close> does, the lower bound is returned when the value is
  below it, the upper bound when the value is above it, and the value otherwise.
\<close>

definition clamp :: "double \<Rightarrow> double \<Rightarrow> double \<Rightarrow> double" where
  "clamp v lo hi = (if v < lo then lo else if hi < v then hi else v)"

section \<open>Speed limiter: data and operations\<close>

record SpeedLimiter =
  has_velocity_limits_m :: bool
  has_acceleration_limits_m :: bool
  has_jerk_limits_m :: bool
  min_velocity_m :: double
  max_velocity_m :: double
  min_acceleration_m :: double
  max_acceleration_m :: double
  min_jerk_m :: double
  max_jerk_m :: double

text \<open>The constructor: a result, or the \<^verbatim>\<open>std::runtime_error\<close> it throws.\<close>

definition new_SpeedLimiter ::
  "bool \<Rightarrow> bool \<Rightarrow> bool \<Rightarrow> double \<Rightarrow> double \<Rightarrow> double \<Rightarrow> double \<Rightarrow> double \<Rightarrow> double
     \<Rightarrow> error + SpeedLimiter" where
  "new_SpeedLimiter has_velocity_limits has_acceleration_limits has_jerk_limits
       min_velocity max_velocity min_acceleration max_acceleration min_jerk max_jerk =
     (let l0 = \<lparr>has_velocity_limits_m = has_velocity_limits,
                has_acceleration_limits_m = has_acceleration_limits,
                has_jerk_limits_m = has_jerk_limits,
                min_velocity_m = min_velocity, max_velocity_m = max_velocity,
                min_acceleration_m = min_acceleration, max_acceleration_m = max_acceleration,
                min_jerk_m = min_jerk, max_jerk_m = max_jerk\<rparr>
      in
      if has_velocity_limits_m l0 \<and> isnan (max_velocity_m l0) then
        Inl (runtime_error ''Cannot apply velocity limits if max_velocity is not specified'')
      else
        (let l1 = (if has_velocity_limits_m l0 \<and> isnan (min_velocity_m l0)
                   then l0\<lparr>min_velocity_m := - max_velocity_m l0\<rparr> else l0)
         in
         if has_acceleration_limits_m l1 \<and> isnan (max_acceleration_m l1) then
           Inl (runtime_error
             ''Cannot apply acceleration limits if max_acceleration is not specified'')
         else
           (let l2 = (if has_acceleration_limits_m l1 \<and> isnan (min_acceleration_m l1)
                      then l1\<lparr>min_acceleration_m := - max_acceleration_m l1\<rparr> else l1)
            in
            if has_jerk_limits_m l2 \<and> isnan (max_jerk_m l2) then
              Inl (runtime_error ''Cannot apply jerk limits if max_jerk is not specified'')
            else
              Inr (if has_jerk_limits_m l2 \<and> isnan (min_jerk_m l2)
                   then l2\<lparr>min_jerk_m := - max_jerk_m l2\<rparr> else l2))))"

text \<open>
  The limiting functions take \<^verbatim>\<open>v\<close> by reference: each returns its return value
  paired with the new \<^verbatim>\<open>v\<close>. These are the \<^verbatim>\<open>double\<close> overloads; the \<^verbatim>\<open>float\<close>
  overloads have the same statements.
\<close>

definition limit_velocity :: "double \<Rightarrow> SpeedLimiter \<Rightarrow> double \<times> double" where
  "limit_velocity v l =
     (let tmp = v;
          v' = (if has_velocity_limits_m l
                then clamp v (min_velocity_m l) (max_velocity_m l) else v)
      in (if dneq tmp (Num 0) then v' / tmp else Num 1, v'))"

definition limit_acceleration :: "double \<Rightarrow> double \<Rightarrow> double \<Rightarrow> SpeedLimiter \<Rightarrow> double \<times> double" where
  "limit_acceleration v v0 dt l =
     (let tmp = v;
          v' = (if has_acceleration_limits_m l then
                  (let dv_min = min_acceleration_m l * dt;
                       dv_max = max_acceleration_m l * dt;
                       dv = clamp (v - v0) dv_min dv_max
                   in v0 + dv)
                else v)
      in (if dneq tmp (Num 0) then v' / tmp else Num 1, v'))"

definition limit_jerk ::
  "double \<Rightarrow> double \<Rightarrow> double \<Rightarrow> double \<Rightarrow> SpeedLimiter \<Rightarrow> double \<times> double" where
  "limit_jerk v v0 v1 dt l =
     (let tmp = v;
          v' = (if has_jerk_limits_m l then
                  (let dv = v - v0;
                       dv0 = v0 - v1;
                       dt2 = Num 2 * dt * dt;
                       da_min = min_jerk_m l * dt2;
                       da_max = max_jerk_m l * dt2;
                       da = clamp (dv - dv0) da_min da_max
                   in v0 + dv0 + da)
                else v)
      in (if dneq tmp (Num 0) then v' / tmp else Num 1, v'))"

definition limit :: "double \<Rightarrow> double \<Rightarrow> double \<Rightarrow> double \<Rightarrow> SpeedLimiter \<Rightarrow> double \<times> double" where
  "limit v v0 v1 dt l =
     (let tmp = v;
          va = snd (limit_jerk v v0 v1 dt l);
          vb = snd (limit_acceleration va v0 dt l);
          vc = snd (limit_velocity vb l)
      in (if dneq tmp (Num 0) then vc / tmp else Num 1, vc))"

section \<open>Example objects\<close>

text \<open>
  An odometry object as a caller sets it up: constructed with a window of ten
  samples, then \<^verbatim>\<open>set_wheel_params(1, 1, 1, 0)\<close>.
\<close>

definition example_odometry :: SteeringOdometry where
  "example_odometry =
     set_wheel_params_4 1 1 1 0 (new_SteeringOdometry 0 0 0 0 BICYCLE_CONFIG 10)"

text \<open>
  A limiter with every category enabled and the bounds \<open>-1\<close> and \<open>1\<close>: what the
  constructor returns for maxima \<open>1\<close> and unspecified (NaN) minima.
\<close>

definition example_limiter :: SpeedLimiter where
  "example_limiter =
     \<lparr>has_velocity_limits_m = True, has_acceleration_limits_m = True, has_jerk_limits_m = True,
      min_velocity_m = Num (- 1), max_velocity_m = Num 1,
      min_acceleration_m = Num (- 1), max_acceleration_m = Num 1,
      min_jerk_m = Num (- 1), max_jerk_m = Num 1\<rparr>"

section \<open>Odometry: pose integration\<close>

lemmas example_defs = example_odometry_def set_wheel_params_4_def new_SteeringOdometry_def
  set_odometry_type_def new_accumulator_def

lemma integrate_exact_velocity_unchanged:
  "linear_m (integrate_exact lin ang s) = linear_m s \<and>
   angular_m (integrate_exact lin ang s) = angular_m s"
  by (simp add: integrate_exact_def integrate_runge_kutta_2_def Let_def)

lemma integrate_exact_heading:
  "heading_m (integrate_exact lin ang s) = heading_m s + ang"
  by (simp add: integrate_exact_def integrate_runge_kutta_2_def Let_def)

text \<open>
  Claim C4. Every pose integration step takes one of two rules. When
  \<open>\<bar>angular\<bar> < 10\<^sup>-\<^sup>6\<close> it is the second-order Runge-Kutta rule: \<open>x\<close> grows by
  \<open>linear * cos (heading + angular / 2)\<close>, \<open>y\<close> by \<open>linear * sin (heading + angular / 2)\<close>
  and the heading by \<open>angular\<close>. Otherwise it is the exact arc rule with
  \<open>r = linear / angular\<close>: the new heading is \<open>heading + angular\<close>, \<open>x\<close> grows by
  \<open>r * (sin heading_new - sin heading_old)\<close> and \<open>y\<close> by
  \<open>- r * (cos heading_new - cos heading_old)\<close>. Nothing else of the object changes.
\<close>

theorem integrate_exact_rule:
  "(\<bar>ang\<bar> < 0.000001 \<longrightarrow>
      integrate_exact lin ang s =
        s\<lparr>x_m := x_m s + lin * cos (heading_m s + ang / 2),
          y_m := y_m s + lin * sin (heading_m s + ang / 2),
          heading_m := heading_m s + ang\<rparr>) \<and>
   (\<not> \<bar>ang\<bar> < 0.000001 \<longrightarrow>
      integrate_exact lin ang s =
        s\<lparr>x_m := x_m s + lin / ang * (sin (heading_m s + ang) - sin (heading_m s)),
          y_m := y_m s + - (lin / ang) * (cos (heading_m s + ang) - cos (heading_m s)),
          heading_m := heading_m s + ang\<rparr>)"
  by (simp add: integrate_exact_def integrate_runge_kutta_2_def Let_def)

theorem integrate_exact_rule_witness:
  "x_m (integrate_exact 2 0 example_odometry) = 2 \<and>
   y_m (integrate_exact 2 0 example_odometry) = 0 \<and>
   x_m (integrate_exact 1 1 example_odometry) = sin 1 \<and>
   y_m (integrate_exact 1 1 example_odometry) = 1 - cos 1 \<and>
   heading_m (integrate_exact 1 1 example_odometry) = 1"
  using integrate_exact_rule [of 0 2 example_odometry]
    integrate_exact_rule [of 1 1 example_odometry]
  by (simp add: example_defs)

section \<open>Odometry: the update entry points\<close>

lemma update_odometry_small_dt:
  "dt < 0.0001 \<Longrightarrow> update_odometry lv ang dt s = (False, integrate_exact (lv * dt) ang s)"
  by (simp add: update_odometry_def Let_def)

text \<open>
  With \<open>dt < 10\<^sup>-\<^sup>4\<close> the entry points that keep the angular rate in a local
  variable return false and leave both velocity estimates as they were;
  \<^verbatim>\<open>update_four_steering\<close> returns false and leaves the linear estimate.
\<close>

lemma update_small_dt_velocity_kept:
  assumes "dt < 0.0001"
  shows "fst (update_from_position_1 p sp dt s) = False
       \<and> linear_m (snd (update_from_position_1 p sp dt s)) = linear_m s
       \<and> angular_m (snd (update_from_position_1 p sp dt s)) = angular_m s"
    and "fst (update_from_position_2 pr pl sp dt s) = False
       \<and> linear_m (snd (update_from_position_2 pr pl sp dt s)) = linear_m s
       \<and> angular_m (snd (update_from_position_2 pr pl sp dt s)) = angular_m s"
    and "fst (update_from_position_3 pr pl spr spl dt s) = False
       \<and> linear_m (snd (update_from_position_3 pr pl spr spl dt s)) = linear_m s
       \<and> angular_m (snd (update_from_position_3 pr pl spr spl dt s)) = angular_m s"
    and "fst (update_from_velocity_1 tv sp dt s) = False
       \<and> linear_m (snd (update_from_velocity_1 tv sp dt s)) = linear_m s
       \<and> angular_m (snd (update_from_velocity_1 tv sp dt s)) = angular_m s"
    and "fst (update_from_velocity_2 vr vl sp dt s) = False
       \<and> linear_m (snd (update_from_velocity_2 vr vl sp dt s)) = linear_m s
       \<and> angular_m (snd (update_from_velocity_2 vr vl sp dt s)) = angular_m s"
    and "fst (update_from_velocity_3 vr vl spr spl dt s) = False
       \<and> linear_m (snd (update_from_velocity_3 vr vl spr spl dt s)) = linear_m s
       \<and> angular_m (snd (update_from_velocity_3 vr vl spr spl dt s)) = angular_m s"
    and "fst (update_four_steering fr fl rr rl fs rs dt s) = False
       \<and> linear_m (snd (update_four_steering fr fl rr rl fs rs dt s)) = linear_m s"
  using assms
  by (simp_all add: update_from_position_1_def update_from_position_2_def
      update_from_position_3_def update_from_velocity_1_def update_from_velocity_2_def
      update_from_velocity_3_def update_four_steering_def Let_def
      update_odometry_small_dt integrate_exact_velocity_unchanged)

text \<open>
  Claim C1. Every velocity-update entry point called with \<open>dt < 10\<^sup>-\<^sup>4\<close> returns
  false, still advances the pose, and leaves the estimates \<^verbatim>\<open>linear_\<close> and
  \<^verbatim>\<open>angular_\<close> as they were before the call. \<^verbatim>\<open>update_four_steering\<close> does not:
  it stores its angular rate in the member \<^verbatim>\<open>angular_\<close> before it calls
  \<^verbatim>\<open>update_odometry\<close>. On an object whose estimate is \<open>1/2\<close> (left there by
  \<^verbatim>\<open>update_open_loop(1, 0.5, 1)\<close>, which \<^verbatim>\<open>reset_odometry\<close> does not clear), the call
  \<^verbatim>\<open>update_four_steering(1, 1, 1, 1, 0, 0, 0.00005)\<close> returns false and leaves
  \<^verbatim>\<open>angular_\<close> at \<open>0\<close>.
\<close>

theorem update_four_steering_small_dt_overwrites_angular:
  "angular_m (reset_odometry (update_open_loop 1 (1/2) 1
      (set_odometry_type FOUR_STEERING_CONFIG example_odometry))) = 1/2 \<and>
   fst (update_four_steering 1 1 1 1 0 0 0.00005
     (reset_odometry (update_open_loop 1 (1/2) 1
        (set_odometry_type FOUR_STEERING_CONFIG example_odometry)))) = False \<and>
   angular_m (snd (update_four_steering 1 1 1 1 0 0 0.00005
     (reset_odometry (update_open_loop 1 (1/2) 1
        (set_odometry_type FOUR_STEERING_CONFIG example_odometry))))) = 0"
  by (simp add: update_four_steering_def update_odometry_def Let_def reset_odometry_def
      reset_accumulators_def update_open_loop_def integrate_exact_def integrate_runge_kutta_2_def
      example_defs copysign_def)

text \<open>
  Every position- and velocity-based entry point ends in a call of
  \<^verbatim>\<open>update_odometry\<close> with the \<open>dt\<close> it was given.
\<close>

lemma update_entry_points_call_update_odometry:
  "\<exists>lv a s1. update_from_position_1 p sp dt s = update_odometry lv a dt s1"
  "\<exists>lv a s1. update_from_position_2 pr pl sp dt s = update_odometry lv a dt s1"
  "\<exists>lv a s1. update_from_position_3 pr pl spr spl dt s = update_odometry lv a dt s1"
  "update_from_velocity_1 tv sp dt s =
     update_odometry (tv * wheel_radius_m s)
       (tan sp * (tv * wheel_radius_m s) / wheelbase_m s) dt (s\<lparr>steer_pos_m := sp\<rparr>)"
  "update_from_velocity_2 vr vl sp dt s =
     update_odometry ((vr + vl) * wheel_radius_m s * 0.5)
       (tan sp * ((vr + vl) * wheel_radius_m s * 0.5) / wheelbase_m s) dt
       (s\<lparr>steer_pos_m := sp\<rparr>)"
  "update_from_velocity_3 vr vl spr spl dt s =
     update_odometry ((vr + vl) * wheel_radius_m s * 0.5)
       ((spr + spl) * 0.5 * ((vr + vl) * wheel_radius_m s * 0.5) / wheelbase_m s) dt
       (s\<lparr>steer_pos_m := (spr + spl) * 0.5\<rparr>)"
  "\<exists>lv a s1. update_four_steering fr fl rr rl fs rs dt s = update_odometry lv a dt s1"
  by (simp_all add: update_from_position_1_def update_from_position_2_def
      update_from_position_3_def update_from_velocity_1_def update_from_velocity_2_def
      update_from_velocity_3_def update_four_steering_def Let_def) blast+

text \<open>
  Claim C2. \<^verbatim>\<open>update_odometry\<close>, through which every position- and velocity-based
  update goes, gives the pose integrator \<open>linear_velocity * dt\<close> and the angular
  rate as it is, not multiplied by \<open>dt\<close>: the heading grows by the rate itself.
  \<^verbatim>\<open>update_open_loop\<close> gives the same integrator \<open>linear * dt\<close> and
  \<open>angular * dt\<close>: the heading grows by \<open>angular * dt\<close>.
\<close>

theorem update_odometry_angular_unscaled:
  "x_m (snd (update_odometry lv ang dt s)) = x_m (integrate_exact (lv * dt) ang s) \<and>
   y_m (snd (update_odometry lv ang dt s)) = y_m (integrate_exact (lv * dt) ang s) \<and>
   heading_m (snd (update_odometry lv ang dt s)) = heading_m (integrate_exact (lv * dt) ang s) \<and>
   heading_m (snd (update_odometry lv ang dt s)) = heading_m s + ang \<and>
   update_open_loop lin ang dt s =
     integrate_exact (lin * dt) (ang * dt) (s\<lparr>linear_m := lin, angular_m := ang\<rparr>) \<and>
   heading_m (update_open_loop lin ang dt s) = heading_m s + ang * dt"
  by (simp add: update_odometry_def update_open_loop_def Let_def integrate_exact_heading)

theorem update_odometry_angular_unscaled_witness:
  "heading_m (snd (update_odometry 1 (1/2) (1/10) example_odometry)) = 1/2 \<and>
   heading_m (update_open_loop 1 (1/2) (1/10) example_odometry) = 1/20"
proof -
  have start: "heading_m example_odometry = 0"
    by (simp add: example_defs)
  show ?thesis
    using update_odometry_angular_unscaled [of 1 "1/2" "1/10" example_odometry 1] start
    by (simp add: integrate_exact_heading)
qed

text \<open>
  Claim C3. Every overload of \<^verbatim>\<open>update_from_velocity\<close> mirrors the overload of
  \<^verbatim>\<open>update_from_position\<close> with the same wheels: the angular velocity is the
  tangent of the (averaged) steering angle times the linear velocity over the
  wheelbase. The overload with two steering axes does not: it multiplies by the
  averaged steering angle itself. With both steering angles \<open>pi / 4\<close>, both wheel
  velocities \<open>1\<close> and \<open>dt = 1\<close> it integrates and reports the rate \<open>pi / 4\<close>, where
  the position overload on the same steering angles and the same linear velocity
  gives \<open>tan (pi / 4) = 1\<close>.
\<close>

theorem update_from_velocity_3_omits_tan:
  "heading_m (snd (update_from_velocity_3 1 1 (pi / 4) (pi / 4) 1 example_odometry)) = pi / 4 \<and>
   angular_m (snd (update_from_velocity_3 1 1 (pi / 4) (pi / 4) 1 example_odometry)) = pi / 4 \<and>
   heading_m (snd (update_from_position_3 1 1 (pi / 4) (pi / 4) 1 example_odometry)) = 1 \<and>
   angular_m (snd (update_from_position_3 1 1 (pi / 4) (pi / 4) 1 example_odometry)) = 1 \<and>
   tan (pi / 4) * (((1 + 1) * 1 * 0.5) :: real) / 1 = 1 \<and> pi / 4 \<noteq> (1::real)"
proof -
  have "pi / 4 \<noteq> (1::real)" using pi_less_4 by simp
  then show ?thesis
    by (simp add: update_from_velocity_3_def update_from_position_3_def update_odometry_def
        Let_def integrate_exact_def integrate_runge_kutta_2_def example_defs tan_45
        accumulate_def getRollingMean_def)
qed

section \<open>Odometry: commands\<close>

text \<open>
  Claim C5. In \<^verbatim>\<open>get_commands\<close> with \<^verbatim>\<open>from_twist = true\<close>: when \<open>Vx = 0\<close> and
  \<open>angular \<noteq> 0\<close>, \<open>alpha\<close> is \<open>pi / 2\<close> for a positive \<open>angular\<close> and \<open>- pi / 2\<close>
  otherwise, and \<open>Ws = \<bar>angular\<bar> * wheelbase / wheel_radius\<close>. In every other case
  \<open>alpha = arctan (angular * wheelbase / Vx)\<close>, or \<open>0\<close> when \<open>Vx = 0\<close> or
  \<open>angular = 0\<close>, and \<open>Ws = Vx / (wheel_radius * cos steer_pos)\<close>. For the bicycle
  configuration the two intermediates are the commands returned.
\<close>

theorem get_commands_from_twist:
  assumes "desired_Ws_alpha Ws0 Vx ang True s = (Ws, alpha)"
  shows "(Vx = 0 \<and> ang \<noteq> 0 \<longrightarrow>
            alpha = (if ang > 0 then pi / 2 else - (pi / 2)) \<and>
            Ws = \<bar>ang\<bar> * wheelbase_m s / wheel_radius_m s) \<and>
         (\<not> (Vx = 0 \<and> ang \<noteq> 0) \<longrightarrow>
            alpha = (if Vx = 0 \<or> ang = 0 then 0 else arctan (ang * wheelbase_m s / Vx)) \<and>
            Ws = Vx / (wheel_radius_m s * cos (steer_pos_m s))) \<and>
         (config_type_m s = BICYCLE_CONFIG \<longrightarrow>
            get_commands Ws0 Vx ang True s = Inr ([Ws], [alpha]))"
  using assms
  by (auto simp add: desired_Ws_alpha_def get_commands_def
      convert_trans_rot_vel_to_steering_angle_def split: if_splits)

theorem get_commands_from_twist_witness:
  "get_commands 7 0 (-3) True example_odometry = Inr ([3], [- (pi / 2)]) \<and>
   get_commands 7 2 0 True example_odometry = Inr ([2], [0]) \<and>
   get_commands 7 1 1 True example_odometry = Inr ([1], [pi / 4])"
  using get_commands_from_twist [of 7 0 "-3" example_odometry 3 "- (pi / 2)"]
    get_commands_from_twist [of 7 2 0 example_odometry 2 0]
    get_commands_from_twist [of 7 1 1 example_odometry 1 "pi / 4"]
  by (simp add: desired_Ws_alpha_def convert_trans_rot_vel_to_steering_angle_def
      example_defs arctan_one)

text \<open>
  Claim C6. In \<^verbatim>\<open>get_commands\<close> with \<^verbatim>\<open>from_twist = false\<close>, \<open>alpha\<close> is the
  \<open>angular\<close> argument and no returned command depends on \<open>Ws\<close>, which this branch
  leaves unset. The code does return it: for the bicycle configuration the
  traction command is the value the uninitialised \<open>Ws\<close> holds, so two calls with
  the same arguments and a different indeterminate value return different commands.
\<close>

theorem get_commands_not_from_twist_uses_Ws:
  "get_commands Ws0 1 0.3 False example_odometry = Inr ([Ws0], [0.3]) \<and>
   get_commands 0 1 0.3 False example_odometry \<noteq> get_commands 5 1 0.3 False example_odometry"
  by (simp add: get_commands_def desired_Ws_alpha_def example_defs)

text \<open>
  Claim C9. For the four-wheel-steering configuration, \<^verbatim>\<open>get_commands\<close> with
  \<^verbatim>\<open>from_twist = true\<close>, an angular rate of zero and any \<open>Vx\<close> returns four steering
  commands equal to zero and four traction commands equal to each other.
\<close>

theorem four_steering_straight_line:
  assumes "config_type_m s = FOUR_STEERING_CONFIG"
  shows "get_commands Ws0 Vx 0 True s =
           (let W = Vx / (wheel_radius_m s * cos (steer_pos_m s));
                w = copysign 1 W * hypot W 0 / wheel_radius_m s
            in Inr ([w, w, w, w], [0, 0, 0, 0]))"
proof -
  define W where "W = Vx / (wheel_radius_m s * cos (steer_pos_m s))"
  have pair: "desired_Ws_alpha Ws0 Vx 0 True s = (W, 0)"
    by (simp add: desired_Ws_alpha_def convert_trans_rot_vel_to_steering_angle_def W_def)
  have branch: "0 < \<bar>2 * W\<bar> \<or> \<not> 0.001 < \<bar>W\<bar>"
    by (cases "W = 0") simp_all
  have "get_commands Ws0 Vx 0 True s =
      Inr ([copysign 1 W * hypot W 0 / wheel_radius_m s,
            copysign 1 W * hypot W 0 / wheel_radius_m s,
            copysign 1 W * hypot W 0 / wheel_radius_m s,
            copysign 1 W * hypot W 0 / wheel_radius_m s], [0, 0, 0, 0])"
    using assms branch by (auto simp add: get_commands_def pair Let_def)
  then show ?thesis by (simp add: W_def Let_def)
qed

theorem four_steering_straight_line_witness:
  "get_commands 7 3 0 True (set_odometry_type FOUR_STEERING_CONFIG example_odometry) =
     Inr ([3, 3, 3, 3], [0, 0, 0, 0])"
  using four_steering_straight_line
    [of "set_odometry_type FOUR_STEERING_CONFIG example_odometry" 7 3]
  by (simp add: Let_def hypot_def copysign_def example_defs)

section \<open>Speed limiter: construction\<close>

lemma new_SpeedLimiter_throws_velocity:
  "has_velocity_limits \<and> isnan max_velocity \<Longrightarrow>
   \<exists>msg. new_SpeedLimiter has_velocity_limits has_acceleration_limits has_jerk_limits
     min_velocity max_velocity min_acceleration max_acceleration min_jerk max_jerk
   = Inl (runtime_error msg)"
  by (simp add: new_SpeedLimiter_def)

lemma new_SpeedLimiter_throws_acceleration:
  "has_acceleration_limits \<and> isnan max_acceleration \<Longrightarrow>
   \<exists>msg. new_SpeedLimiter has_velocity_limits has_acceleration_limits has_jerk_limits
     min_velocity max_velocity min_acceleration max_acceleration min_jerk max_jerk
   = Inl (runtime_error msg)"
  by (cases has_velocity_limits; cases "isnan max_velocity"; cases "isnan min_velocity")
     (simp_all add: new_SpeedLimiter_def Let_def)

lemma new_SpeedLimiter_throws_jerk:
  "has_jerk_limits \<and> isnan max_jerk \<Longrightarrow>
   \<exists>msg. new_SpeedLimiter has_velocity_limits has_acceleration_limits has_jerk_limits
     min_velocity max_velocity min_acceleration max_acceleration min_jerk max_jerk
   = Inl (runtime_error msg)"
  by (cases has_velocity_limits; cases "isnan max_velocity"; cases "isnan min_velocity";
      cases has_acceleration_limits; cases "isnan max_acceleration";
      cases "isnan min_acceleration")
     (simp_all add: new_SpeedLimiter_def Let_def)

text \<open>
  Claim C8. Constructing a speed limiter fails with a configuration error whenever
  an enabled category (velocity, acceleration or jerk) has a NaN maximum. When no
  enabled category has one, construction succeeds, and every enabled category whose
  minimum is NaN gets the negated maximum as its minimum; all other members are the
  arguments.
\<close>

theorem new_SpeedLimiter_validation:
  "((has_velocity_limits \<and> isnan max_velocity) \<or>
    (has_acceleration_limits \<and> isnan max_acceleration) \<or>
    (has_jerk_limits \<and> isnan max_jerk) \<longrightarrow>
      (\<exists>msg. new_SpeedLimiter has_velocity_limits has_acceleration_limits has_jerk_limits
          min_velocity max_velocity min_acceleration max_acceleration min_jerk max_jerk
        = Inl (runtime_error msg))) \<and>
   (\<not> ((has_velocity_limits \<and> isnan max_velocity) \<or>
       (has_acceleration_limits \<and> isnan max_acceleration) \<or>
       (has_jerk_limits \<and> isnan max_jerk)) \<longrightarrow>
      new_SpeedLimiter has_velocity_limits has_acceleration_limits has_jerk_limits
          min_velocity max_velocity min_acceleration max_acceleration min_jerk max_jerk
        = Inr \<lparr>has_velocity_limits_m = has_velocity_limits,
               has_acceleration_limits_m = has_acceleration_limits,
               has_jerk_limits_m = has_jerk_limits,
               min_velocity_m =
                 (if has_velocity_limits \<and> isnan min_velocity then - max_velocity
                  else min_velocity),
               max_velocity_m = max_velocity,
               min_acceleration_m =
                 (if has_acceleration_limits \<and> isnan min_acceleration then - max_acceleration
                  else min_acceleration),
               max_acceleration_m = max_acceleration,
               min_jerk_m = (if has_jerk_limits \<and> isnan min_jerk then - max_jerk else min_jerk),
               max_jerk_m = max_jerk\<rparr>)"
proof (intro conjI impI)
  assume "(has_velocity_limits \<and> isnan max_velocity) \<or>
    (has_acceleration_limits \<and> isnan max_acceleration) \<or>
    (has_jerk_limits \<and> isnan max_jerk)"
  then show "\<exists>msg. new_SpeedLimiter has_velocity_limits has_acceleration_limits has_jerk_limits
          min_velocity max_velocity min_acceleration max_acceleration min_jerk max_jerk
        = Inl (runtime_error msg)"
    using new_SpeedLimiter_throws_velocity new_SpeedLimiter_throws_acceleration
      new_SpeedLimiter_throws_jerk by metis
next
  assume "\<not> ((has_velocity_limits \<and> isnan max_velocity) \<or>
       (has_acceleration_limits \<and> isnan max_acceleration) \<or>
       (has_jerk_limits \<and> isnan max_jerk))"
  then have ok: "\<not> (has_velocity_limits \<and> isnan max_velocity)"
      "\<not> (has_acceleration_limits \<and> isnan max_acceleration)"
      "\<not> (has_jerk_limits \<and> isnan max_jerk)"
    by blast+
  show "new_SpeedLimiter has_velocity_limits has_acceleration_limits has_jerk_limits
          min_velocity max_velocity min_acceleration max_acceleration min_jerk max_jerk
        = Inr \<lparr>has_velocity_limits_m = has_velocity_limits,
               has_acceleration_limits_m = has_acceleration_limits,
               has_jerk_limits_m = has_jerk_limits,
               min_velocity_m =
                 (if has_velocity_limits \<and> isnan min_velocity then - max_velocity
                  else min_velocity),
               max_velocity_m = max_velocity,
               min_acceleration_m =
                 (if has_acceleration_limits \<and> isnan min_acceleration then - max_acceleration
                  else min_acceleration),
               max_acceleration_m = max_acceleration,
               min_jerk_m = (if has_jerk_limits \<and> isnan min_jerk then - max_jerk else min_jerk),
               max_jerk_m = max_jerk\<rparr>"
    using ok
    by (cases has_velocity_limits; cases has_acceleration_limits; cases has_jerk_limits;
        cases "isnan min_velocity"; cases "isnan min_acceleration"; cases "isnan min_jerk")
       (simp_all add: new_SpeedLimiter_def Let_def)
qed

theorem new_SpeedLimiter_validation_witness:
  "(\<exists>msg. new_SpeedLimiter False True False NaN NaN NaN NaN NaN NaN = Inl (runtime_error msg)) \<and>
   new_SpeedLimiter True True True NaN (Num 1) NaN (Num 1) NaN (Num 1) = Inr example_limiter \<and>
   new_SpeedLimiter False False False NaN NaN NaN NaN NaN NaN =
     Inr \<lparr>has_velocity_limits_m = False, has_acceleration_limits_m = False,
          has_jerk_limits_m = False, min_velocity_m = NaN, max_velocity_m = NaN,
          min_acceleration_m = NaN, max_acceleration_m = NaN,
          min_jerk_m = NaN, max_jerk_m = NaN\<rparr>"
  using new_SpeedLimiter_validation [of False NaN True NaN False NaN NaN NaN NaN]
    new_SpeedLimiter_validation [of True "Num 1" True "Num 1" True "Num 1" NaN NaN NaN]
    new_SpeedLimiter_validation [of False NaN False NaN False NaN NaN NaN NaN]
  by (simp add: example_limiter_def)

section \<open>Speed limiter: the overflow threshold\<close>

lemma pow_double: "(2::real) ^ Suc n = 2 ^ n + 2 ^ n"
  by simp

lemma overflow_threshold_bounds:
  "(2::real) ^ 1023 < overflow_threshold" "overflow_threshold \<le> 2 ^ 1023 + 2 ^ 1023"
proof -
  have "(1024::nat) = Suc 1023" by simp
  then have split: "(2::real) ^ 1024 = 2 ^ 1023 + 2 ^ 1023"
    by (simp only: pow_double)
  have "(2::real) ^ 970 < 2 ^ 1023"
    by (rule power_strict_increasing) simp_all
  then show "(2::real) ^ 1023 < overflow_threshold"
    unfolding overflow_threshold_def split by linarith
  have "(0::real) \<le> 2 ^ 970"
    by (rule zero_le_power) simp
  then show "overflow_threshold \<le> 2 ^ 1023 + 2 ^ 1023"
    unfolding overflow_threshold_def split by linarith
qed

lemma small_below_overflow_threshold: "1000 < overflow_threshold"
proof -
  have "(1000::real) < 2 ^ 10" by simp
  also have "(2::real) ^ 10 \<le> 2 ^ 1023" by (rule power_increasing) simp_all
  also note overflow_threshold_bounds(1)
  finally show ?thesis .
qed

lemma finite_result_small: "\<bar>x\<bar> \<le> 1000 \<Longrightarrow> finite_result x = Num x"
proof -
  assume "\<bar>x\<bar> \<le> 1000"
  then have "\<not> overflow_threshold \<le> x" "\<not> x \<le> - overflow_threshold"
    using small_below_overflow_threshold by linarith+
  then show ?thesis by (simp add: finite_result_def)
qed


section \<open>Speed limiter: the three stages\<close>

lemma dneq_zero: "dneq x (Num 0) = (x \<noteq> Num 0)"
  by (cases x) (simp_all add: dneq_def)

text \<open>
  Claim C7. \<^verbatim>\<open>limit\<close> applies three stages in the order jerk, acceleration,
  velocity. The jerk stage, when enabled, sets
  \<open>v = v0 + (v0 - v1) + clamp ((v - v0) - (v0 - v1)) (min_jerk * 2dt\<^sup>2) (max_jerk * 2dt\<^sup>2)\<close>;
  the acceleration stage sets \<open>v = v0 + clamp (v - v0) (min_accel * dt) (max_accel * dt)\<close>;
  the velocity stage clamps \<open>v\<close> to the velocity bounds; a disabled stage leaves \<open>v\<close>
  as it is. Each stage, and \<^verbatim>\<open>limit\<close> itself, returns the final \<open>v\<close> over the
  original \<open>v\<close>, or \<open>1\<close> when the original \<open>v\<close> is zero.
\<close>

theorem limit_stages:
  "limit_jerk v v0 v1 dt l =
     (let v' = (if has_jerk_limits_m l
                then v0 + (v0 - v1) +
                     clamp ((v - v0) - (v0 - v1))
                       (min_jerk_m l * (Num 2 * dt * dt)) (max_jerk_m l * (Num 2 * dt * dt))
                else v)
      in (if v = Num 0 then Num 1 else v' / v, v')) \<and>
   limit_acceleration v v0 dt l =
     (let v' = (if has_acceleration_limits_m l
                then v0 + clamp (v - v0) (min_acceleration_m l * dt) (max_acceleration_m l * dt)
                else v)
      in (if v = Num 0 then Num 1 else v' / v, v')) \<and>
   limit_velocity v l =
     (let v' = (if has_velocity_limits_m l
                then clamp v (min_velocity_m l) (max_velocity_m l)
                else v)
      in (if v = Num 0 then Num 1 else v' / v, v')) \<and>
   limit v v0 v1 dt l =
     (let va = snd (limit_jerk v v0 v1 dt l);
          vb = snd (limit_acceleration va v0 dt l);
          vc = snd (limit_velocity vb l)
      in (if v = Num 0 then Num 1 else vc / v, vc))"
  by (simp add: limit_jerk_def limit_acceleration_def limit_velocity_def limit_def Let_def
      dneq_zero)

theorem limit_stages_witness:
  "limit_jerk (Num 1) (Num 0) (Num 0) (Num 0.1) example_limiter = (Num 0.02, Num 0.02) \<and>
   limit_acceleration (Num 1) (Num 0) (Num 0.1) example_limiter = (Num 0.1, Num 0.1) \<and>
   limit_velocity (Num 5) example_limiter = (Num 0.2, Num 1) \<and>
   limit_velocity (Num (- 5)) example_limiter = (Num 0.2, Num (- 1)) \<and>
   limit (Num 0) (Num 0) (Num 0) (Num 0.1) example_limiter = (Num 1, Num 0)"
  using limit_stages [of "Num 1" "Num 0" "Num 0" "Num 0.1" example_limiter]
        limit_stages [of "Num 5" "Num 0" "Num 0" "Num 0.1" example_limiter]
        limit_stages [of "Num (- 5)" "Num 0" "Num 0" "Num 0.1" example_limiter]
        limit_stages [of "Num 0" "Num 0" "Num 0" "Num 0.1" example_limiter]
  by (simp add: Let_def clamp_def example_limiter_def minus_double_def finite_result_small)

section \<open>Speed limiter: the velocity bound\<close>













section \<open>Speed limiter: overflow in the jerk stage\<close>








end
